theory Spec2Isabelle
  imports Main "HOL-Library.Sublist" "HOL-Library.Multiset" "HOL-Library.Word"
begin

section \<open>C values: int, strings, pointers, streams\<close>

text \<open>
  A C \<open>int\<close> is a 32-bit word: \<open>+\<close> wraps around and \<open>sint\<close> reads the two's
  complement value. (ISO C leaves signed overflow undefined; the wrap-around is what the
  usual compilers produce for the additions below.) A C string is the list of its
  characters before the terminating NUL. A pointer to a list node is an address or
  \<open>None\<close> for NULL, and the nodes live in a heap that maps addresses to structs. A
  stream (stdout, stderr, an open file) is the list of the chunks written to it, one per
  \<open>printf\<close>/\<open>fprintf\<close> call; its bytes are the concatenation of the chunks.
\<close>

type_synonym c_int = "32 word"
type_synonym addr = nat

abbreviation dquote :: char where "dquote \<equiv> CHR 0x22"
abbreviation backslash :: char where "backslash \<equiv> CHR 0x5C"
abbreviation newline :: char where "newline \<equiv> CHR 0x0A"

text \<open>The conversion \<open>%d\<close> of \<open>printf\<close>: the signed decimal numeral of an int.\<close>

definition digit_char :: "nat \<Rightarrow> char" where
  "digit_char d = ''0123456789'' ! d"

function dec_digits :: "nat \<Rightarrow> string" where
  "dec_digits n =
     (if n < 10 then [digit_char n] else dec_digits (n div 10) @ [digit_char (n mod 10)])"
  by pat_completeness auto
termination
  by (relation "measure id") auto

declare dec_digits.simps [simp del]

definition fmt_d :: "c_int \<Rightarrow> string" where
  "fmt_d x = (if sint x < 0 then CHR ''-'' # dec_digits (nat (- sint x))
              else dec_digits (nat (sint x)))"

text \<open>
  \<open>strstr\<close> of the C library: the offset of the first occurrence of \<open>needle\<close> in
  \<open>haystack\<close>, \<open>None\<close> for the NULL it returns when there is none. Characters are
  compared as they are; nothing folds case.
\<close>

fun strstr :: "string \<Rightarrow> string \<Rightarrow> nat option" where
  "strstr [] needle = (if needle = [] then Some 0 else None)"
| "strstr (c # cs) needle =
     (if prefix needle (c # cs) then Some 0 else map_option Suc (strstr cs needle))"

text \<open>
  What a run of one of the programs can read and change: the heap of list nodes, the two
  standard streams, the files by path, and the paths that cannot be opened for writing,
  each with the message \<open>strerror\<close> gives for the failure. Opening a path for reading
  succeeds exactly when \<open>files\<close> has it.
\<close>

record 'n process =
  heap :: "addr \<rightharpoonup> 'n"
  stdout :: "string list"
  stderr :: "string list"
  files :: "string \<rightharpoonup> string list"
  write_error :: "string \<rightharpoonup> string"

definition printf :: "string \<Rightarrow> 'n process \<Rightarrow> 'n process" where
  "printf chunk w = w\<lparr>stdout := stdout w @ [chunk]\<rparr>"

definition eprintf :: "string \<Rightarrow> 'n process \<Rightarrow> 'n process" where
  "eprintf chunk w = w\<lparr>stderr := stderr w @ [chunk]\<rparr>"

text \<open>
  The list reachable from a pointer: \<open>list_at nxt h p qs\<close> holds when following the
  \<open>nxt\<close> field from \<open>p\<close> in heap \<open>h\<close> visits exactly the structs \<open>qs\<close> and then
  reaches NULL.
\<close>

fun list_at :: "('n \<Rightarrow> addr option) \<Rightarrow> (addr \<rightharpoonup> 'n) \<Rightarrow> addr option \<Rightarrow> 'n list \<Rightarrow> bool" where
  "list_at nxt h p [] = (p = None)"
| "list_at nxt h p (q # qs) =
     (case p of None \<Rightarrow> False | Some a \<Rightarrow> h a = Some q \<and> list_at nxt h (nxt q) qs)"

section \<open>semantic.c\<close>

text \<open>
  \<open>struct Question\<close> of semantic.c. The fields \<open>text\<close> and \<open>next\<close> are spelled
  \<open>q_text\<close> and \<open>q_next\<close> (both words are Isabelle keywords), and the others take
  the same prefix.
\<close>

record Question =
  q_number :: c_int
  q_text :: string
  q_marks :: c_int
  q_difficulty :: string
  q_next :: "addr option"

type_synonym sem_state = "Question process"

text \<open>
  The \<open>while (ptr)\<close> loop of \<open>validate_marks\<close>. It has no result (\<open>None\<close>) when
  \<open>ptr\<close> points outside the heap or the list is cyclic and the loop never ends.
  The local \<open>sum\<close> is spelled \<open>sm\<close>.
\<close>

partial_function (option) sum_loop :: "(addr \<rightharpoonup> Question) \<Rightarrow> addr option \<Rightarrow> c_int \<Rightarrow> c_int option" where
  "sum_loop h ptr sm =
     (case ptr of
        None \<Rightarrow> Some sm
      | Some p \<Rightarrow>
          (case h p of
             None \<Rightarrow> None
           | Some q \<Rightarrow> sum_loop h (q_next q) (sm + q_marks q)))"

definition validate_marks :: "addr option \<Rightarrow> c_int \<Rightarrow> sem_state \<Rightarrow> (c_int \<times> sem_state) option" where
  "validate_marks head declared_total s =
     (case sum_loop (heap s) head 0 of
        None \<Rightarrow> None
      | Some sm \<Rightarrow>
          if sm = declared_total
          then Some (1, printf (''PASS: Marks sum matches declared total (''
                             @ fmt_d declared_total @ '')'' @ [newline]) s)
          else Some (0, printf (''FAIL: Marks sum '' @ fmt_d sm
                             @ '' does not match declared total '' @ fmt_d declared_total
                             @ [newline]) s))"

definition classify_difficulty :: "string \<Rightarrow> string" where
  "classify_difficulty text =
     (if strstr text ''define'' \<noteq> None \<or> strstr text ''state'' \<noteq> None then ''EASY''
      else if strstr text ''explain'' \<noteq> None \<or> strstr text ''prove'' \<noteq> None then ''MEDIUM''
      else if strstr text ''design'' \<noteq> None \<or> strstr text ''construct'' \<noteq> None
              \<or> strstr text ''optimize'' \<noteq> None then ''HARD''
      else ''MEDIUM'')"

text \<open>
  The matching the specification asks of the classifier, for comparison with
  \<open>strstr\<close>: the keyword occurs in the text once upper-case ASCII letters are folded
  to lower case.
\<close>

definition fold_case :: "char \<Rightarrow> char" where
  "fold_case c =
     (let n = (of_char c :: nat) in if 65 \<le> n \<and> n \<le> 90 then char_of (n + 32) else c)"

definition occurs_ignoring_case :: "string \<Rightarrow> string \<Rightarrow> bool" where
  "occurs_ignoring_case keyword text = (strstr (map fold_case text) keyword \<noteq> None)"

section \<open>ast.h, ast_helpers.c and main.c\<close>

text \<open>
  \<open>struct QuestionNode\<close> and \<open>struct ASTNode\<close> of ast.h. The fields \<open>text\<close> and
  \<open>next\<close> are spelled \<open>qtext\<close> and \<open>qnext\<close>. A \<open>char*\<close> field holds the string it
  points to (\<open>strdup\<close> copies it). The question nodes live in the heap; the one ASTNode
  is held by value, and a pointer to it is \<open>Some\<close> of it or \<open>None\<close> for NULL.
\<close>

record QuestionNode =
  qtext :: string
  marks :: c_int
  difficulty :: string
  estimated_time :: c_int
  syllabus_topic :: string
  status_flag :: c_int
  blooms_level :: string
  qnext :: "addr option"

record ASTNode =
  subject :: string
  total_marks :: c_int
  total_time :: c_int
  syllabus_path :: string
  questions :: "addr option"

text \<open>The meaning of \<open>status_flag\<close> that ast.h documents: 0=OK, 1=DUPLICATE, 2=OUT_OF_SYLLABUS.\<close>

datatype status = OK | DUPLICATE | OUT_OF_SYLLABUS

definition status_of :: "c_int \<Rightarrow> status option" where
  "status_of flag =
     (if flag = 0 then Some OK else if flag = 1 then Some DUPLICATE
      else if flag = 2 then Some OUT_OF_SYLLABUS else None)"

type_synonym ast_state = "QuestionNode process"

text \<open>
  \<open>create_question_node\<close>: \<open>node\<close> is the block that \<open>malloc\<close> returns, taken to
  be a valid one. The parameters \<open>text\<close> and \<open>marks\<close> are spelled \<open>txt\<close> and \<open>mks\<close>;
  the final \<open>free(text)\<close> releases the caller's copy, which the heap of nodes does not
  hold.
\<close>

definition create_question_node ::
  "addr \<Rightarrow> string \<Rightarrow> c_int \<Rightarrow> (addr \<rightharpoonup> QuestionNode) \<Rightarrow> addr option \<times> (addr \<rightharpoonup> QuestionNode)" where
  "create_question_node node txt mks h =
     (Some node,
      h(node \<mapsto> \<lparr>qtext = txt, marks = mks, difficulty = ''N/A'', estimated_time = 0,
                  syllabus_topic = ''N/A'', status_flag = 0, blooms_level = ''N/A'',
                  qnext = None\<rparr>))"

text \<open>
  \<open>append_question\<close>. Its loop walks \<open>current\<close> to the node whose \<open>next\<close> is NULL;
  it has no result when it leaves the heap or the list is cyclic.
\<close>

partial_function (option) last_node :: "(addr \<rightharpoonup> QuestionNode) \<Rightarrow> addr \<Rightarrow> addr option" where
  "last_node h current =
     (case h current of
        None \<Rightarrow> None
      | Some n \<Rightarrow> (case qnext n of None \<Rightarrow> Some current | Some nx \<Rightarrow> last_node h nx))"

definition append_question ::
  "addr option \<Rightarrow> addr option \<Rightarrow> (addr \<rightharpoonup> QuestionNode)
     \<Rightarrow> (addr option \<times> (addr \<rightharpoonup> QuestionNode)) option" where
  "append_question list_head new_question h =
     (case list_head of
        None \<Rightarrow> Some (new_question, h)
      | Some first \<Rightarrow>
          (case last_node h first of
             None \<Rightarrow> None
           | Some current \<Rightarrow>
               (case h current of
                  None \<Rightarrow> None
                | Some n \<Rightarrow> Some (list_head, h(current \<mapsto> n\<lparr>qnext := new_question\<rparr>)))))"

text \<open>\<open>free_ast\<close> releases the root block only; every question node stays in the heap.\<close>

definition free_ast :: "ASTNode option \<Rightarrow> ast_state \<Rightarrow> ast_state" where
  "free_ast root w = (case root of None \<Rightarrow> w | Some r \<Rightarrow> w)"

text \<open>
  \<open>export_ast_to_dot\<close>. Each \<open>fprintf\<close> writes one statement of the graph; \<open>f\<close> is
  the list of the statements written so far. In the C format strings \<open>\"\<close> is a double
  quote and \<open>\\n\<close> a backslash followed by n.
\<close>

definition graph_stmt :: string where
  "graph_stmt = ''digraph AST {'' @ [newline]"

definition node_defaults_stmt :: string where
  "node_defaults_stmt =
     ''  node [shape=box, style='' @ [dquote] @ ''filled'' @ [dquote] @ '', fillcolor=''
       @ [dquote] @ ''lightblue'' @ [dquote] @ ''];'' @ [newline]"

definition root_stmt :: "ASTNode \<Rightarrow> string" where
  "root_stmt root =
     ''  root [label='' @ [dquote] @ ''Q-Verifier AST'' @ [backslash] @ ''nSubject: ''
       @ subject root @ [backslash] @ ''nMarks: '' @ fmt_d (total_marks root)
       @ [backslash] @ ''nTime: '' @ fmt_d (total_time root) @ '' min'' @ [dquote]
       @ ''];'' @ [newline]"

definition question_stmt :: "c_int \<Rightarrow> QuestionNode \<Rightarrow> string" where
  "question_stmt i q =
     ''  q'' @ fmt_d i @ '' [label='' @ [dquote] @ ''Q_TEXT: '' @ ''TODO: Substring''
       @ ''...'' @ [backslash] @ ''nQ_MARKS: '' @ fmt_d (marks q) @ [dquote] @ ''];''
       @ [newline]"

definition edge_stmt :: "c_int \<Rightarrow> string" where
  "edge_stmt i = ''  root -> q'' @ fmt_d i @ '';'' @ [newline]"

definition end_stmt :: string where
  "end_stmt = ''}'' @ [newline]"

partial_function (option) export_questions ::
  "(addr \<rightharpoonup> QuestionNode) \<Rightarrow> addr option \<Rightarrow> c_int \<Rightarrow> string list \<Rightarrow> string list option" where
  "export_questions h q i f =
     (case q of
        None \<Rightarrow> Some f
      | Some a \<Rightarrow>
          (case h a of
             None \<Rightarrow> None
           | Some n \<Rightarrow> export_questions h (qnext n) (i + 1) (f @ [question_stmt i n, edge_stmt i])))"

definition export_ast_to_dot :: "ASTNode option \<Rightarrow> string \<Rightarrow> ast_state \<Rightarrow> ast_state option" where
  "export_ast_to_dot root filepath w =
     (let w1 = printf (''AST Helper: Exporting AST to '' @ filepath @ [newline]) w in
      case write_error w1 filepath of
        Some msg \<Rightarrow> Some (eprintf (''Failed to open ast.dot: '' @ msg @ [newline]) w1)
      | None \<Rightarrow>
          (case root of
             None \<Rightarrow> None
           | Some r \<Rightarrow>
               (case export_questions (heap w1) (questions r) 0
                       [graph_stmt, node_defaults_stmt, root_stmt r] of
                  None \<Rightarrow> None
                | Some f \<Rightarrow>
                    Some (w1\<lparr>files := (files w1)(filepath \<mapsto> f @ [end_stmt])\<rparr>))))"

text \<open>
  main.c. The lexer and the parser are outside the C sources at hand, so \<open>main\<close> takes
  them as parameters: \<open>yyparse\<close> reads the open input \<open>yyin\<close> and yields its return
  value and the global \<open>root\<close> it leaves, and all three may change the process state.
  \<open>run_parser\<close> is step 2 of \<open>main\<close>, from \<open>lexer_init\<close> to \<open>lexer_cleanup\<close>.
  \<open>main\<close> has no result (\<open>None\<close>) when its behaviour is undefined or it never
  returns.
\<close>

text \<open>
  \<open>sprintf\<close> into a \<open>char\<close> array of \<open>n\<close> bytes, as \<open>main\<close> does for
  \<open>input_path\<close> and \<open>dot_path\<close> (both \<open>char[1024]\<close>): the string and its
  terminating NUL must fit. \<open>sprintf\<close> does not check; writing past the array is
  undefined behaviour, which has no result.
\<close>

definition sprintf_buf :: "nat \<Rightarrow> string \<Rightarrow> string option" where
  "sprintf_buf n s = (if length s + 1 \<le> n then Some s else None)"

record externals =
  lexer_init :: "string \<Rightarrow> ast_state \<Rightarrow> ast_state"
  yyparse :: "string list \<Rightarrow> ast_state \<Rightarrow> c_int \<times> ASTNode option \<times> ast_state"
  lexer_cleanup :: "ast_state \<Rightarrow> ast_state"

definition run_parser ::
  "externals \<Rightarrow> string \<Rightarrow> string list \<Rightarrow> ast_state \<Rightarrow> c_int \<times> ASTNode option \<times> ast_state" where
  "run_parser ext job_dir_path yyin w =
     (let w1 = lexer_init ext job_dir_path w;
          w2 = printf (''Phases 1 (Lex) & 2 (Parse) running...'' @ [newline]) w1;
          (parse_result, root, w3) = yyparse ext yyin w2
      in (parse_result, root, lexer_cleanup ext w3))"

definition main :: "externals \<Rightarrow> string list \<Rightarrow> ast_state \<Rightarrow> (c_int \<times> ast_state) option" where
  "main ext argv w =
     (if length argv \<noteq> 2
      then Some (1, eprintf (''Usage: '' @ (case argv of [] \<Rightarrow> ''(null)'' | a # as \<Rightarrow> a)
                              @ '' <path_to_job_directory>'' @ [newline]) w)
      else
        let job_dir_path = argv ! 1;
            w1 = printf (''Compiler worker started for job: '' @ job_dir_path @ [newline]) w
        in case sprintf_buf 1024 (job_dir_path @ ''/input.qp'') of
             None \<Rightarrow> None
           | Some input_path \<Rightarrow>
               (case files w1 input_path of
                  None \<Rightarrow>
                    Some (1, eprintf (''Fatal Error: Cannot open input file '' @ input_path
                                        @ [newline]) w1)
                | Some yyin \<Rightarrow>
                    (case run_parser ext job_dir_path yyin w1 of
                       (parse_result, root, w2) \<Rightarrow>
                         if parse_result \<noteq> 0 \<or> root = None
                         then Some (1, eprintf (''Fatal Error: Parsing failed. Check syntax of input.qp.''
                                                  @ [newline]) w2)
                         else
                           let w3 = printf (''Phases 1 & 2 Complete. AST built successfully.''
                                              @ [newline]) w2
                           in case sprintf_buf 1024 (job_dir_path @ ''/ast.dot'') of
                                None \<Rightarrow> None
                              | Some dot_path \<Rightarrow>
                                  (case export_ast_to_dot root dot_path w3 of
                                     None \<Rightarrow> None
                                   | Some w4 \<Rightarrow>
                                       let w5 = printf (''Phase 2 (Web Output) Complete. ast.dot generated.''
                                                          @ [newline]) w4;
                                           w6 = free_ast root w5
                                       in Some (0, printf (''Compiler worker finished for job: ''
                                                             @ job_dir_path @ [newline]) w6)))))"


section \<open>Example inputs and the vocabulary of the theorems\<close>

text \<open>
  The three questions that \<open>main\<close> of semantic.c builds and links
  (\<open>q1.next = &q2; q2.next = &q3\<close>), at addresses 1, 2 and 3.
\<close>

definition q1 :: Question where
  "q1 = \<lparr>q_number = 1, q_text = ''Define compiler and interpreter.'', q_marks = 10,
          q_difficulty = [], q_next = Some 2\<rparr>"

definition q2 :: Question where
  "q2 = \<lparr>q_number = 2, q_text = ''Explain the phases of compiler design.'', q_marks = 10,
          q_difficulty = [], q_next = Some 3\<rparr>"

definition q3 :: Question where
  "q3 = \<lparr>q_number = 3, q_text = ''Construct DFA for (a|b)*abb.'', q_marks = 12,
          q_difficulty = [], q_next = None\<rparr>"

definition example_state :: sem_state where
  "example_state = \<lparr>heap = [1 \<mapsto> q1, 2 \<mapsto> q2, 3 \<mapsto> q3], stdout = [], stderr = [],
                     files = Map.empty, write_error = Map.empty\<rparr>"

text \<open>
  \<open>main\<close> of semantic.c (spelled \<open>semantic_main\<close>, as main.c has a \<open>main\<close> too):
  it validates the three questions against a declared total of 32 and prints the
  difficulty of the first and the third.
\<close>

definition semantic_main :: "(c_int \<times> sem_state) option" where
  "semantic_main =
     (let declared_total = 32 in
      case validate_marks (Some 1) declared_total example_state of
        None \<Rightarrow> None
      | Some (flag, s1) \<Rightarrow>
          let s2 = printf (''Q1 difficulty: '' @ classify_difficulty (q_text q1) @ [newline]) s1;
              s3 = printf (''Q3 difficulty: '' @ classify_difficulty (q_text q3) @ [newline]) s2
          in Some (0, s3))"

text \<open>
  The values of an int, and the lists of marks whose running sums, added up from
  \<open>acc\<close> in list order as the loop does, all stay among them.
\<close>

definition in_int_range :: "int \<Rightarrow> bool" where
  "in_int_range v = (- 2147483648 \<le> v \<and> v \<le> 2147483647)"

fun no_overflow :: "int \<Rightarrow> int list \<Rightarrow> bool" where
  "no_overflow acc [] = True"
| "no_overflow acc (m # ms) = (in_int_range (acc + m) \<and> no_overflow (acc + m) ms)"

text \<open>A paper of three questions worth 2147483647, 2147483647 and 2 marks.\<close>

definition big1 :: Question where
  "big1 = \<lparr>q_number = 1, q_text = ''State Rice's theorem.'', q_marks = 2147483647,
            q_difficulty = [], q_next = Some 2\<rparr>"

definition big2 :: Question where
  "big2 = \<lparr>q_number = 2, q_text = ''Prove Rice's theorem.'', q_marks = 2147483647,
            q_difficulty = [], q_next = Some 3\<rparr>"

definition big3 :: Question where
  "big3 = \<lparr>q_number = 3, q_text = ''Name the author.'', q_marks = 2,
            q_difficulty = [], q_next = None\<rparr>"

definition big_state :: sem_state where
  "big_state = \<lparr>heap = [1 \<mapsto> big1, 2 \<mapsto> big2, 3 \<mapsto> big3], stdout = [], stderr = [],
                 files = Map.empty, write_error = Map.empty\<rparr>"

text \<open>
  Reading the written graph: a statement declares the root node, declares a question
  node, or is an edge from the root to a question node, by the way it starts.
\<close>

definition is_root_stmt :: "string \<Rightarrow> bool" where
  "is_root_stmt l = prefix ''  root [label='' l"

definition is_question_stmt :: "string \<Rightarrow> bool" where
  "is_question_stmt l = prefix ''  q'' l"

definition is_edge_stmt :: "string \<Rightarrow> bool" where
  "is_edge_stmt l = prefix ''  root -> q'' l"

text \<open>The statements the export loop writes for a list of nodes, counting from \<open>i\<close>.\<close>

fun question_stmts :: "c_int \<Rightarrow> QuestionNode list \<Rightarrow> string list" where
  "question_stmts i [] = []"
| "question_stmts i (n # ns) = question_stmt i n # edge_stmt i # question_stmts (i + 1) ns"

text \<open>A parsed paper of two questions, and a paper whose one question carries annotations.\<close>

definition node1 :: QuestionNode where
  "node1 = \<lparr>qtext = ''Define compiler and interpreter.'', marks = 10, difficulty = ''N/A'',
             estimated_time = 0, syllabus_topic = ''N/A'', status_flag = 0,
             blooms_level = ''N/A'', qnext = Some 2\<rparr>"

definition node2 :: QuestionNode where
  "node2 = \<lparr>qtext = ''Construct DFA for (a|b)*abb.'', marks = 12, difficulty = ''N/A'',
             estimated_time = 0, syllabus_topic = ''N/A'', status_flag = 0,
             blooms_level = ''N/A'', qnext = None\<rparr>"

definition paper :: ASTNode where
  "paper = \<lparr>subject = ''Compiler Design'', total_marks = 22, total_time = 60,
             syllabus_path = ''syllabus.txt'', questions = Some 1\<rparr>"

definition paper_state :: ast_state where
  "paper_state = \<lparr>heap = [1 \<mapsto> node1, 2 \<mapsto> node2], stdout = [], stderr = [],
                   files = Map.empty, write_error = Map.empty\<rparr>"

definition marked :: QuestionNode where
  "marked = \<lparr>qtext = ''Explain parsing.'', marks = 5, difficulty = ''Hard'',
              estimated_time = 0, syllabus_topic = ''Parsing'', status_flag = 1,
              blooms_level = ''Analyzing'', qnext = None\<rparr>"

definition marked_paper :: ASTNode where
  "marked_paper = \<lparr>subject = ''Compiler Design'', total_marks = 5, total_time = 10,
                    syllabus_path = ''syllabus.txt'', questions = Some 1\<rparr>"

definition marked_state :: ast_state where
  "marked_state = \<lparr>heap = [1 \<mapsto> marked], stdout = [], stderr = [],
                    files = Map.empty, write_error = Map.empty\<rparr>"

text \<open>
  A lexer and parser that accept a one-line paper and build the two-question tree, and a
  job directory that holds that paper.
\<close>

definition toy_parser :: externals where
  "toy_parser =
     \<lparr>lexer_init = (\<lambda>job w. w),
      yyparse = (\<lambda>yyin w. if yyin = [''SUBJECT Compiler Design'']
                           then (0, Some paper, w\<lparr>heap := [1 \<mapsto> node1, 2 \<mapsto> node2]\<rparr>)
                           else (1, None, w)),
      lexer_cleanup = (\<lambda>w. w)\<rparr>"

definition job_state :: ast_state where
  "job_state = \<lparr>heap = Map.empty, stdout = [], stderr = [],
                 files = [''job/input.qp'' \<mapsto> [''SUBJECT Compiler Design'']],
                 write_error = Map.empty\<rparr>"

text \<open>
  Modelled from the spec: the token-overlap similarity of the Duplicate Detector, which
  the C sources do not have: the size of the intersection over the size of the union of
  the case-insensitive word sets of two texts. A word is a maximal run of characters
  other than spaces. The ratio is given by its numerator and denominator, the two sizes:
  it is 1, the most it can be, when they are equal and not 0.
\<close>

fun words_from :: "string \<Rightarrow> string \<Rightarrow> string list" where
  "words_from cur [] = (if cur = [] then [] else [cur])"
| "words_from cur (c # cs) =
     (if c = CHR '' '' then (if cur = [] then words_from [] cs else cur # words_from [] cs)
      else words_from (cur @ [c]) cs)"

text \<open>Modelled from the spec: the case-insensitive word set of a text.\<close>

definition word_set :: "string \<Rightarrow> string set" where
  "word_set text = set (words_from [] (map fold_case text))"

text \<open>Modelled from the spec: intersection size over union size of the two word sets.\<close>

definition token_overlap :: "string \<Rightarrow> string \<Rightarrow> nat \<times> nat" where
  "token_overlap a b =
     (card (word_set a \<inter> word_set b), card (word_set a \<union> word_set b))"

definition twin :: "addr option \<Rightarrow> QuestionNode" where
  "twin nx = \<lparr>qtext = ''Define a compiler.'', marks = 10, difficulty = ''N/A'',
              estimated_time = 0, syllabus_topic = ''N/A'', status_flag = 0,
              blooms_level = ''N/A'', qnext = nx\<rparr>"

text \<open>
  Modelled from the spec: a similarity score, given as numerator and denominator, meets
  or exceeds a duplicate threshold, given the same way. The spec fixes no threshold; a
  ratio of word-set sizes is at most 1, so a score of 1 meets every threshold it can meet.
\<close>

definition meets_threshold :: "nat \<times> nat \<Rightarrow> nat \<times> nat \<Rightarrow> bool" where
  "meets_threshold threshold score =
     (0 < snd score \<and> 0 < snd threshold
      \<and> fst threshold * snd score \<le> fst score * snd threshold)"

text \<open>
  A parser for a paper of two questions with the same text: it builds the list with the
  creation functions of ast_helpers.c, each question created and then appended, at the
  addresses 1 and 2.
\<close>

definition twin_questions :: "(addr option \<times> (addr \<rightharpoonup> QuestionNode)) option" where
  "twin_questions =
     (case create_question_node 1 ''Define a compiler.'' 10 Map.empty of
        (a, h1) \<Rightarrow>
          (case append_question None a h1 of
             None \<Rightarrow> None
           | Some (l1, h2) \<Rightarrow>
               (case create_question_node 2 ''Define a compiler.'' 10 h2 of
                  (b, h3) \<Rightarrow> append_question l1 b h3)))"

definition twin_paper :: "addr option \<Rightarrow> ASTNode" where
  "twin_paper l = \<lparr>subject = ''Compiler Design'', total_marks = 20, total_time = 30,
                   syllabus_path = ''syllabus.txt'', questions = l\<rparr>"

definition twin_parser :: externals where
  "twin_parser =
     \<lparr>lexer_init = (\<lambda>job w. w),
      yyparse = (\<lambda>yyin w. case twin_questions of
                             None \<Rightarrow> (1, None, w)
                           | Some (l, h) \<Rightarrow> (0, Some (twin_paper l), w\<lparr>heap := h\<rparr>)),
      lexer_cleanup = (\<lambda>w. w)\<rparr>"


section \<open>Library facts\<close>

lemma strstr_sublist: "strstr haystack needle \<noteq> None \<longleftrightarrow> sublist needle haystack"
  by (induction haystack) (auto simp: sublist_Cons_right)

lemma classify_difficulty_sublist:
  "classify_difficulty text =
     (if sublist ''define'' text \<or> sublist ''state'' text then ''EASY''
      else if sublist ''explain'' text \<or> sublist ''prove'' text then ''MEDIUM''
      else if sublist ''design'' text \<or> sublist ''construct'' text
              \<or> sublist ''optimize'' text then ''HARD''
      else ''MEDIUM'')"
  unfolding classify_difficulty_def strstr_sublist ..

lemma sum_loop_list:
  "list_at q_next h p qs \<Longrightarrow> sum_loop h p acc = Some (acc + sum_list (map q_marks qs))"
proof (induction qs arbitrary: p acc)
  case Nil
  then have "p = None" by simp
  then show ?case by (subst sum_loop.simps) simp
next
  case (Cons q qs)
  then obtain a where a: "p = Some a" "h a = Some q" "list_at q_next h (q_next q) qs"
    by (auto split: option.splits)
  have "sum_loop h p acc = sum_loop h (q_next q) (acc + q_marks q)"
    using a by (subst sum_loop.simps) simp
  also have "\<dots> = Some (acc + q_marks q + sum_list (map q_marks qs))"
    using Cons.IH [OF a(3)] .
  finally show ?case by (simp add: add.assoc)
qed

lemma sint_add_in_range:
  "in_int_range (sint (a :: c_int) + sint b) \<Longrightarrow> sint (a + b) = sint a + sint b"
  unfolding in_int_range_def
  by (simp add: sint_word_ariths signed_take_bit_int_eq_self)

lemma sint_sum_list:
  "no_overflow (sint (acc :: c_int)) (map sint ms) \<Longrightarrow>
   sint (acc + sum_list ms) = sint acc + sum_list (map sint ms)"
proof (induction ms arbitrary: acc)
  case Nil
  then show ?case by simp
next
  case (Cons m ms)
  then have step: "sint (acc + m) = sint acc + sint m"
    by (simp add: sint_add_in_range)
  with Cons.prems have "no_overflow (sint (acc + m)) (map sint ms)" by simp
  from Cons.IH [OF this] step show ?case by (simp add: add.assoc)
qed

lemma validate_marks_flag:
  "sum_loop (heap s) head 0 = Some sm \<Longrightarrow>
   validate_marks head declared_total s =
     Some (if sm = declared_total then 1 else 0,
           printf (if sm = declared_total
                   then ''PASS: Marks sum matches declared total ('' @ fmt_d declared_total
                          @ '')'' @ [newline]
                   else ''FAIL: Marks sum '' @ fmt_d sm @ '' does not match declared total ''
                          @ fmt_d declared_total @ [newline]) s)"
  by (simp add: validate_marks_def)

lemma example_list: "list_at q_next (heap example_state) (Some 1) [q1, q2, q3]"
  by (simp add: example_state_def q1_def q2_def q3_def)

lemma example_sum: "sum_loop (heap example_state) (Some 1) 0 = Some 32"
  using sum_loop_list [OF example_list, of 0] by (simp add: q1_def q2_def q3_def)

lemma fmt_d_32: "fmt_d 32 = ''32''"
  by (simp add: fmt_d_def dec_digits.simps digit_char_def)

lemma big_list: "list_at q_next (heap big_state) (Some 1) [big1, big2, big3]"
  by (simp add: big_state_def big1_def big2_def big3_def)

lemma export_questions_list:
  "list_at qnext h q qs \<Longrightarrow> export_questions h q i f = Some (f @ question_stmts i qs)"
proof (induction qs arbitrary: q i f)
  case Nil
  then have "q = None" by simp
  then show ?case by (subst export_questions.simps) simp
next
  case (Cons n ns)
  then obtain a where a: "q = Some a" "h a = Some n" "list_at qnext h (qnext n) ns"
    by (auto split: option.splits)
  have "export_questions h q i f
      = export_questions h (qnext n) (i + 1) (f @ [question_stmt i n, edge_stmt i])"
    using a by (subst export_questions.simps) simp
  also have "\<dots> = Some ((f @ [question_stmt i n, edge_stmt i]) @ question_stmts (i + 1) ns)"
    by (rule Cons.IH [OF a(3)])
  finally show ?case by simp
qed

lemma stmt_kinds [simp]:
  "is_question_stmt (question_stmt i n)" "\<not> is_question_stmt (edge_stmt i)"
  "\<not> is_edge_stmt (question_stmt i n)" "is_edge_stmt (edge_stmt i)"
  "\<not> is_root_stmt (question_stmt i n)" "\<not> is_root_stmt (edge_stmt i)"
  by (simp_all add: is_question_stmt_def is_edge_stmt_def is_root_stmt_def question_stmt_def
      edge_stmt_def)

lemma frame_kinds [simp]:
  "\<not> is_question_stmt graph_stmt" "\<not> is_edge_stmt graph_stmt" "\<not> is_root_stmt graph_stmt"
  "\<not> is_question_stmt node_defaults_stmt" "\<not> is_edge_stmt node_defaults_stmt"
  "\<not> is_root_stmt node_defaults_stmt"
  "\<not> is_question_stmt (root_stmt r)" "\<not> is_edge_stmt (root_stmt r)" "is_root_stmt (root_stmt r)"
  "\<not> is_question_stmt end_stmt" "\<not> is_edge_stmt end_stmt" "\<not> is_root_stmt end_stmt"
  by (simp_all add: is_question_stmt_def is_edge_stmt_def is_root_stmt_def graph_stmt_def
      node_defaults_stmt_def root_stmt_def end_stmt_def)

lemma filter_question_stmts:
  "filter is_question_stmt (question_stmts i qs)
     = map (\<lambda>k. question_stmt (i + of_nat k) (qs ! k)) [0..<length qs]"
  "filter is_edge_stmt (question_stmts i qs) = map (\<lambda>k. edge_stmt (i + of_nat k)) [0..<length qs]"
  "filter is_root_stmt (question_stmts i qs) = []"
proof (induction qs arbitrary: i)
  case Nil
  { case 1 show ?case by simp }
  { case 2 show ?case by simp }
  { case 3 show ?case by simp }
next
  case (Cons n ns)
  { case 1 show ?case
      using Cons.IH(1) [of "i + 1"] by (simp add: map_upt_Suc add.assoc del: upt_Suc) }
  { case 2 show ?case
      using Cons.IH(2) [of "i + 1"] by (simp add: map_upt_Suc add.assoc del: upt_Suc) }
  { case 3 show ?case using Cons.IH(3) by simp }
qed

lemma sint_of_nat_small: "k < 2 ^ 31 \<Longrightarrow> sint (of_nat k :: c_int) = int k"
  by (simp add: signed_of_nat signed_take_bit_int_eq_self)

lemma fmt_d_of_nat: "k < 2 ^ 31 \<Longrightarrow> fmt_d (of_nat k) = dec_digits k"
  by (simp add: fmt_d_def sint_of_nat_small)

lemma export_ast_to_dot_file:
  assumes "list_at qnext (heap w) (questions root) qs" and "write_error w filepath = None"
  shows "export_ast_to_dot (Some root) filepath w =
     Some ((printf (''AST Helper: Exporting AST to '' @ filepath @ [newline]) w)
       \<lparr>files := (files w)(filepath \<mapsto>
          [graph_stmt, node_defaults_stmt, root_stmt root] @ question_stmts 0 qs
            @ [end_stmt])\<rparr>)"
  using assms
  by (simp add: export_ast_to_dot_def printf_def Let_def export_questions_list)

lemma paper_list: "list_at qnext (heap paper_state) (questions paper) [node1, node2]"
  by (simp add: paper_state_def paper_def node1_def node2_def)

lemma marked_list: "list_at qnext (heap marked_state) (questions marked_paper) [marked]"
  by (simp add: marked_state_def marked_paper_def marked_def)

lemma append_question_status:
  assumes "append_question list_head new_question h = Some (l, h')"
  shows "map_option status_flag (h' a) = map_option status_flag (h a)"
  using assms
  by (auto simp: append_question_def split: option.splits if_splits)

lemma export_ast_to_dot_heap:
  assumes "export_ast_to_dot root filepath w = Some w'"
  shows "heap w' = heap w"
  using assms
  by (auto simp: export_ast_to_dot_def printf_def eprintf_def Let_def split: option.splits)

lemma last_node_single: "h a = Some n \<Longrightarrow> qnext n = None \<Longrightarrow> last_node h a = Some a"
  by (subst last_node.simps) simp


lemma fold_case_keywords:
  "map fold_case ''define'' = ''define''" "map fold_case ''state'' = ''state''"
  "map fold_case ''explain'' = ''explain''" "map fold_case ''prove'' = ''prove''"
  "map fold_case ''design'' = ''design''" "map fold_case ''construct'' = ''construct''"
  "map fold_case ''optimize'' = ''optimize''"
  by (simp_all add: fold_case_def)

lemma sublist_occurs_ignoring_case:
  assumes "sublist keyword text" and "map fold_case keyword = keyword"
  shows "occurs_ignoring_case keyword text"
proof -
  from assms(1) have "sublist (map fold_case keyword) (map fold_case text)"
    by (rule map_mono_sublist)
  with assms(2) have "sublist keyword (map fold_case text)" by simp
  then show ?thesis
    unfolding occurs_ignoring_case_def strstr_sublist .
qed

lemma semantic_main_eq:
  "semantic_main =
     Some (0, printf (''Q3 difficulty: MEDIUM'' @ [newline])
               (printf (''Q1 difficulty: MEDIUM'' @ [newline])
                 (printf (''PASS: Marks sum matches declared total (32)'' @ [newline])
                   example_state)))"
proof -
  have run: "validate_marks (Some 1) 32 example_state =
      Some (1, printf (''PASS: Marks sum matches declared total (32)'' @ [newline])
                 example_state)"
    using validate_marks_flag [OF example_sum, of 32] by (simp add: fmt_d_32)
  have "classify_difficulty (q_text q1) = ''MEDIUM''" "classify_difficulty (q_text q3) = ''MEDIUM''"
    by (simp_all add: classify_difficulty_def q1_def q3_def)
  then show ?thesis
    unfolding semantic_main_def Let_def run by simp
qed

lemma export_ast_to_dot_returns:
  assumes "list_at qnext (heap w) (questions doc) qs"
  shows "\<exists>w'. export_ast_to_dot (Some doc) filepath w = Some w'"
proof (cases "write_error w filepath")
  case None
  from export_ast_to_dot_file [OF assms None] show ?thesis by blast
next
  case (Some msg)
  then show ?thesis by (simp add: export_ast_to_dot_def printf_def Let_def)
qed

lemma main_usage:
  "length argv \<noteq> 2 \<Longrightarrow> map_option fst (main ext argv w) = Some 1"
  by (simp add: main_def)

lemma main_cannot_open:
  assumes "length argv = 2" and "length (argv ! 1) \<le> 1014"
    and "files w (argv ! 1 @ ''/input.qp'') = None"
  shows "main ext argv w =
     Some (1, eprintf (''Fatal Error: Cannot open input file '' @ argv ! 1 @ ''/input.qp''
                         @ [newline])
                (printf (''Compiler worker started for job: '' @ argv ! 1 @ [newline]) w))"
  using assms by (simp add: main_def sprintf_buf_def Let_def printf_def)

lemma main_parse_failed:
  assumes "length argv = 2" and "length (argv ! 1) \<le> 1014"
    and "files w (argv ! 1 @ ''/input.qp'') = Some yyin"
    and "run_parser ext (argv ! 1) yyin
           (printf (''Compiler worker started for job: '' @ argv ! 1 @ [newline]) w)
         = (parse_result, root, w2)"
    and "parse_result \<noteq> 0 \<or> root = None"
  shows "main ext argv w =
     Some (1, eprintf (''Fatal Error: Parsing failed. Check syntax of input.qp.'' @ [newline]) w2)"
proof -
  have "files (printf (''Compiler worker started for job: '' @ argv ! 1 @ [newline]) w)
      (argv ! 1 @ ''/input.qp'') = Some yyin"
    using assms(3) by (simp add: printf_def)
  with assms show ?thesis
    by (auto simp: main_def sprintf_buf_def Let_def)
qed

lemma main_completes:
  assumes "length argv = 2" and "length (argv ! 1) \<le> 1014"
    and "files w (argv ! 1 @ ''/input.qp'') = Some yyin"
    and "run_parser ext (argv ! 1) yyin
           (printf (''Compiler worker started for job: '' @ argv ! 1 @ [newline]) w)
         = (0, Some doc, w2)"
    and "list_at qnext (heap w2) (questions doc) qs"
  shows "\<exists>w4. export_ast_to_dot (Some doc) (argv ! 1 @ ''/ast.dot'')
               (printf (''Phases 1 & 2 Complete. AST built successfully.'' @ [newline]) w2)
             = Some w4
     \<and> heap w4 = heap w2
     \<and> main ext argv w =
         Some (0, printf (''Compiler worker finished for job: '' @ argv ! 1 @ [newline])
                    (printf (''Phase 2 (Web Output) Complete. ast.dot generated.'' @ [newline])
                       w4))"
proof -
  let ?w3 = "printf (''Phases 1 & 2 Complete. AST built successfully.'' @ [newline]) w2"
  have "list_at qnext (heap ?w3) (questions doc) qs"
    using assms(5) by (simp add: printf_def)
  from export_ast_to_dot_returns [OF this]
  obtain w4 where w4: "export_ast_to_dot (Some doc) (argv ! 1 @ ''/ast.dot'') ?w3 = Some w4"
    by blast
  from export_ast_to_dot_heap [OF w4] have h: "heap w4 = heap w2"
    by (simp add: printf_def)
  have "files (printf (''Compiler worker started for job: '' @ argv ! 1 @ [newline]) w)
      (argv ! 1 @ ''/input.qp'') = Some yyin"
    using assms(3) by (simp add: printf_def)
  with assms(1,2,4) w4 have "main ext argv w =
      Some (0, printf (''Compiler worker finished for job: '' @ argv ! 1 @ [newline])
                 (printf (''Phase 2 (Web Output) Complete. ast.dot generated.'' @ [newline])
                    w4))"
    by (simp add: main_def sprintf_buf_def Let_def free_ast_def)
  with w4 h show ?thesis by blast
qed

lemma twin_questions_eq:
  "twin_questions = Some (Some 1, [1 \<mapsto> twin (Some 2), 2 \<mapsto> twin None])"
proof -
  have "last_node [1 \<mapsto> twin None, 2 \<mapsto> twin None] 1 = Some 1"
    by (rule last_node_single [of _ _ "twin None"]) (simp_all add: twin_def)
  then show ?thesis
    by (simp add: twin_questions_def create_question_node_def append_question_def twin_def
        fun_upd_twist)
qed

lemma twin_run:
  "run_parser twin_parser job yyin w =
     (0, Some (twin_paper (Some 1)),
      (printf (''Phases 1 (Lex) & 2 (Parse) running...'' @ [newline]) w)
        \<lparr>heap := [1 \<mapsto> twin (Some 2), 2 \<mapsto> twin None]\<rparr>)"
  by (simp add: run_parser_def twin_parser_def twin_questions_eq Let_def)

lemma twin_list:
  "list_at qnext [1 \<mapsto> twin (Some 2), 2 \<mapsto> twin None] (questions (twin_paper (Some 1)))
     [twin (Some 2), twin None]"
  by (simp add: twin_paper_def twin_def)

lemma twin_overlap: "token_overlap ''Define a compiler.'' ''Define a compiler.'' = (3, 3)"
proof -
  have "word_set ''Define a compiler.'' = {''define'', ''a'', ''compiler.''}"
    by (simp add: word_set_def fold_case_def) code_simp
  then show ?thesis by (simp add: token_overlap_def)
qed


section \<open>The difficulty classifier\<close>

text \<open>
  C1. The specification asks for case-insensitive keyword matching, so that
  "Define compiler and interpreter." is Easy and "Construct DFA for (a|b)*abb." is Hard.
  The code matches with \<open>strstr\<close>, which distinguishes case: in both texts the keyword
  occurs only with a capital first letter, no rule fires, and both texts get the default
  MEDIUM, although each keyword does occur once case is ignored. They are the texts of
  the program's own example, which therefore prints MEDIUM for both.
\<close>

theorem classify_difficulty_capitalised:
  "classify_difficulty ''Define compiler and interpreter.'' = ''MEDIUM''
   \<and> classify_difficulty ''Construct DFA for (a|b)*abb.'' = ''MEDIUM''
   \<and> occurs_ignoring_case ''define'' ''Define compiler and interpreter.''
   \<and> occurs_ignoring_case ''construct'' ''Construct DFA for (a|b)*abb.''
   \<and> map_option (\<lambda>(status, s). (status, stdout s)) semantic_main =
       Some (0, [''PASS: Marks sum matches declared total (32)'' @ [newline],
                 ''Q1 difficulty: MEDIUM'' @ [newline],
                 ''Q3 difficulty: MEDIUM'' @ [newline]])"
proof -
  have texts: "classify_difficulty ''Define compiler and interpreter.'' = ''MEDIUM''"
    "classify_difficulty ''Construct DFA for (a|b)*abb.'' = ''MEDIUM''"
    by (simp_all add: classify_difficulty_def)
  have folded: "occurs_ignoring_case ''define'' ''Define compiler and interpreter.''"
    "occurs_ignoring_case ''construct'' ''Construct DFA for (a|b)*abb.''"
    by code_simp+
  have "map_option (\<lambda>(status, s). (status, stdout s)) semantic_main =
       Some (0, [''PASS: Marks sum matches declared total (32)'' @ [newline],
                 ''Q1 difficulty: MEDIUM'' @ [newline],
                 ''Q3 difficulty: MEDIUM'' @ [newline]])"
  proof -
    have run: "validate_marks (Some 1) 32 example_state =
        Some (1, printf (''PASS: Marks sum matches declared total (32)'' @ [newline])
                   example_state)"
      using validate_marks_flag [OF example_sum, of 32] by (simp add: fmt_d_32)
    have "stdout example_state = []" by (simp add: example_state_def)
    with texts show ?thesis
      unfolding semantic_main_def Let_def run
      by (simp add: printf_def q1_def q3_def)
  qed
  with texts folded show ?thesis by blast
qed

theorem classify_difficulty_capitalised_witness:
  "classify_difficulty ''Define compiler and interpreter.'' \<noteq> ''EASY''
   \<and> classify_difficulty ''Construct DFA for (a|b)*abb.'' \<noteq> ''HARD''"
  using classify_difficulty_capitalised by simp

text \<open>
  C3. The specification asks that the earliest rule decides when keywords of several
  rules match, with the case-insensitive matching of its section 4.3. In the program's
  own second example text, "Explain the phases of compiler design.", no keyword of rule 1
  occurs and, case ignored, "explain" of rule 2 and "design" of rule 3 both do, so rule 2
  should make it Medium. The code's \<open>strstr\<close> misses the capitalised "Explain", rule 3
  fires, and the result is HARD. (That the result depends on the text alone holds of the
  function as of any function.)
\<close>

theorem classify_difficulty_explain_design:
  "q_text q2 = ''Explain the phases of compiler design.''
   \<and> classify_difficulty ''Explain the phases of compiler design.'' = ''HARD''
   \<and> \<not> occurs_ignoring_case ''define'' ''Explain the phases of compiler design.''
   \<and> \<not> occurs_ignoring_case ''state'' ''Explain the phases of compiler design.''
   \<and> occurs_ignoring_case ''explain'' ''Explain the phases of compiler design.''
   \<and> occurs_ignoring_case ''design'' ''Explain the phases of compiler design.''"
proof -
  have "classify_difficulty ''Explain the phases of compiler design.'' = ''HARD''"
    by (simp add: classify_difficulty_def)
  moreover have "\<not> occurs_ignoring_case ''define'' ''Explain the phases of compiler design.''"
    "\<not> occurs_ignoring_case ''state'' ''Explain the phases of compiler design.''"
    "occurs_ignoring_case ''explain'' ''Explain the phases of compiler design.''"
    "occurs_ignoring_case ''design'' ''Explain the phases of compiler design.''"
    by code_simp+
  ultimately show ?thesis by (simp add: q2_def)
qed

theorem classify_difficulty_explain_design_witness:
  "classify_difficulty (q_text q2) \<noteq> ''MEDIUM''"
  using classify_difficulty_explain_design by simp

text \<open>
  C4, as amended. The classifier always returns one of its three tiers, and a text in
  which none of the seven keywords occurs, as written or with case ignored, gets the
  default MEDIUM; "Summarize the topic." is such a text. The tier is only returned: the
  program that classifies its questions leaves every Question of the heap as it was.
\<close>

theorem classify_difficulty_fallback:
  "(\<not> sublist ''define'' text \<and> \<not> sublist ''state'' text
      \<and> \<not> sublist ''explain'' text \<and> \<not> sublist ''prove'' text
      \<and> \<not> sublist ''design'' text \<and> \<not> sublist ''construct'' text
      \<and> \<not> sublist ''optimize'' text
     \<longrightarrow> classify_difficulty text = ''MEDIUM'')
   \<and> (\<not> occurs_ignoring_case ''define'' text \<and> \<not> occurs_ignoring_case ''state'' text
      \<and> \<not> occurs_ignoring_case ''explain'' text \<and> \<not> occurs_ignoring_case ''prove'' text
      \<and> \<not> occurs_ignoring_case ''design'' text \<and> \<not> occurs_ignoring_case ''construct'' text
      \<and> \<not> occurs_ignoring_case ''optimize'' text
     \<longrightarrow> classify_difficulty text = ''MEDIUM'')
   \<and> classify_difficulty text \<in> {''EASY'', ''MEDIUM'', ''HARD''}
   \<and> classify_difficulty ''Summarize the topic.'' = ''MEDIUM''
   \<and> map_option (heap \<circ> snd) semantic_main = Some (heap example_state)"
proof -
  have literal: "classify_difficulty text = ''MEDIUM''"
    if "\<not> sublist ''define'' text" "\<not> sublist ''state'' text" "\<not> sublist ''explain'' text"
      "\<not> sublist ''prove'' text" "\<not> sublist ''design'' text" "\<not> sublist ''construct'' text"
      "\<not> sublist ''optimize'' text"
    using that by (simp add: classify_difficulty_sublist)
  have folded: "classify_difficulty text = ''MEDIUM''"
    if "\<not> occurs_ignoring_case ''define'' text" "\<not> occurs_ignoring_case ''state'' text"
      "\<not> occurs_ignoring_case ''explain'' text" "\<not> occurs_ignoring_case ''prove'' text"
      "\<not> occurs_ignoring_case ''design'' text" "\<not> occurs_ignoring_case ''construct'' text"
      "\<not> occurs_ignoring_case ''optimize'' text"
    using that literal sublist_occurs_ignoring_case fold_case_keywords by metis
  have tiers: "classify_difficulty text \<in> {''EASY'', ''MEDIUM'', ''HARD''}"
    by (simp add: classify_difficulty_def)
  have example: "classify_difficulty ''Summarize the topic.'' = ''MEDIUM''"
    by (simp add: classify_difficulty_def)
  have "map_option (heap \<circ> snd) semantic_main = Some (heap example_state)"
    by (simp add: semantic_main_eq printf_def)
  with literal folded tiers example show ?thesis by blast
qed

theorem classify_difficulty_fallback_witness:
  "\<not> occurs_ignoring_case ''define'' ''Name the parts of a compiler.''
   \<and> \<not> occurs_ignoring_case ''state'' ''Name the parts of a compiler.''
   \<and> \<not> occurs_ignoring_case ''explain'' ''Name the parts of a compiler.''
   \<and> \<not> occurs_ignoring_case ''prove'' ''Name the parts of a compiler.''
   \<and> \<not> occurs_ignoring_case ''design'' ''Name the parts of a compiler.''
   \<and> \<not> occurs_ignoring_case ''construct'' ''Name the parts of a compiler.''
   \<and> \<not> occurs_ignoring_case ''optimize'' ''Name the parts of a compiler.''
   \<and> classify_difficulty ''Name the parts of a compiler.'' = ''MEDIUM''
   \<and> \<not> sublist ''define'' ''List three sorting algorithms.''
   \<and> \<not> sublist ''state'' ''List three sorting algorithms.''
   \<and> \<not> sublist ''explain'' ''List three sorting algorithms.''
   \<and> \<not> sublist ''prove'' ''List three sorting algorithms.''
   \<and> \<not> sublist ''design'' ''List three sorting algorithms.''
   \<and> \<not> sublist ''construct'' ''List three sorting algorithms.''
   \<and> \<not> sublist ''optimize'' ''List three sorting algorithms.''
   \<and> classify_difficulty ''List three sorting algorithms.'' = ''MEDIUM''"
proof -
  have a: "\<not> occurs_ignoring_case ''define'' ''Name the parts of a compiler.''"
    "\<not> occurs_ignoring_case ''state'' ''Name the parts of a compiler.''"
    "\<not> occurs_ignoring_case ''explain'' ''Name the parts of a compiler.''"
    "\<not> occurs_ignoring_case ''prove'' ''Name the parts of a compiler.''"
    "\<not> occurs_ignoring_case ''design'' ''Name the parts of a compiler.''"
    "\<not> occurs_ignoring_case ''construct'' ''Name the parts of a compiler.''"
    "\<not> occurs_ignoring_case ''optimize'' ''Name the parts of a compiler.''"
    by code_simp+
  have b: "\<not> sublist ''define'' ''List three sorting algorithms.''"
    "\<not> sublist ''state'' ''List three sorting algorithms.''"
    "\<not> sublist ''explain'' ''List three sorting algorithms.''"
    "\<not> sublist ''prove'' ''List three sorting algorithms.''"
    "\<not> sublist ''design'' ''List three sorting algorithms.''"
    "\<not> sublist ''construct'' ''List three sorting algorithms.''"
    "\<not> sublist ''optimize'' ''List three sorting algorithms.''"
    by (simp_all add: strstr_sublist [symmetric])
  from a classify_difficulty_fallback [of "''Name the parts of a compiler.''",
      THEN conjunct2, THEN conjunct1]
  have c: "classify_difficulty ''Name the parts of a compiler.'' = ''MEDIUM''" by blast
  from b classify_difficulty_fallback [of "''List three sorting algorithms.''",
      THEN conjunct1]
  have d: "classify_difficulty ''List three sorting algorithms.'' = ''MEDIUM''" by blast
  from a b c d show ?thesis by blast
qed

text \<open>
  C4 as the specification states it has the classifier write the difficulty, with Bloom's
  level Understanding for the fallback, so that the field is never left unset. The code
  returns the tier string and nothing else: after the program has classified its first
  and third question, both by the fallback, the difficulty field of every Question is
  still empty, and no level exists anywhere.
\<close>

theorem semantic_main_difficulty_unset:
  "map_option (\<lambda>(status, s). map (map_option q_difficulty \<circ> heap s) [1, 2, 3]) semantic_main
     = Some [Some [], Some [], Some []]
   \<and> classify_difficulty (q_text q1) = ''MEDIUM''
   \<and> classify_difficulty (q_text q3) = ''MEDIUM''
   \<and> classify_difficulty ''Summarize the topic.'' = ''MEDIUM''"
  by (simp add: semantic_main_eq printf_def example_state_def q1_def q2_def q3_def
      classify_difficulty_def)


section \<open>The marks validator\<close>

text \<open>
  C2, as amended. For a question list whose running sums of marks never leave the range
  of an int, the validator's loop computes the arithmetic sum of the marks, the flag
  returned is 1 exactly when that sum is the declared total (so a declared total of 0
  matches exactly when the sum is 0), and any list with the same marks in another order
  gives the same sum.
\<close>

theorem validate_marks_sum:
  assumes "list_at q_next (heap s) head qs"
    and "no_overflow 0 (map (sint \<circ> q_marks) qs)"
  shows "(\<exists>sm. sum_loop (heap s) head 0 = Some sm \<and> sint sm = (\<Sum>q\<leftarrow>qs. sint (q_marks q)))
    \<and> map_option fst (validate_marks head declared_total s) =
        Some (if (\<Sum>q\<leftarrow>qs. sint (q_marks q)) = sint declared_total then 1 else 0)
    \<and> (map_option fst (validate_marks head 0 s) = Some 1) = ((\<Sum>q\<leftarrow>qs. sint (q_marks q)) = 0)
    \<and> (\<forall>h' head' qs'. list_at q_next h' head' qs'
           \<and> mset (map q_marks qs') = mset (map q_marks qs)
           \<longrightarrow> sum_loop h' head' 0 = sum_loop (heap s) head 0)"
proof -
  let ?sm = "sum_list (map q_marks qs)"
  have loop: "sum_loop (heap s) head 0 = Some ?sm"
    using sum_loop_list [OF assms(1), of 0] by simp
  have "no_overflow (sint (0 :: c_int)) (map sint (map q_marks qs))"
    using assms(2) by simp
  from sint_sum_list [OF this]
  have exact: "sint ?sm = (\<Sum>q\<leftarrow>qs. sint (q_marks q))"
    by (simp add: comp_def)
  have eq_iff: "(?sm = d) = ((\<Sum>q\<leftarrow>qs. sint (q_marks q)) = sint d)" for d
    using exact by (auto intro: signed_word_eqI)
  have flag: "map_option fst (validate_marks head d s) =
      Some (if (\<Sum>q\<leftarrow>qs. sint (q_marks q)) = sint d then 1 else 0)" for d
    using validate_marks_flag [OF loop, of d] eq_iff [of d] by simp
  have order: "sum_loop h' head' 0 = sum_loop (heap s) head 0"
    if "list_at q_next h' head' qs'" "mset (map q_marks qs') = mset (map q_marks qs)"
    for h' head' qs'
  proof -
    have "sum_list (map q_marks qs') = ?sm"
      using that(2) by (metis sum_mset_sum_list)
    with sum_loop_list [OF that(1), of 0] loop show ?thesis by simp
  qed
  from loop exact have "\<exists>sm. sum_loop (heap s) head 0 = Some sm
      \<and> sint sm = (\<Sum>q\<leftarrow>qs. sint (q_marks q))" by blast
  moreover have "(map_option fst (validate_marks head 0 s) = Some 1)
      = ((\<Sum>q\<leftarrow>qs. sint (q_marks q)) = 0)"
    using flag [of 0] by (auto split: if_splits)
  ultimately show ?thesis using flag [of declared_total] order by blast
qed

theorem validate_marks_sum_witness:
  "list_at q_next (heap example_state) (Some 1) [q1, q2, q3]
   \<and> no_overflow 0 (map (sint \<circ> q_marks) [q1, q2, q3])
   \<and> map_option fst (validate_marks (Some 1) 32 example_state) = Some 1
   \<and> map_option fst (validate_marks (Some 1) 30 example_state) = Some 0"
proof -
  have ok: "no_overflow 0 (map (sint \<circ> q_marks) [q1, q2, q3])"
    by (simp add: q1_def q2_def q3_def in_int_range_def)
  from validate_marks_sum [OF example_list ok, of 32]
    validate_marks_sum [OF example_list ok, of 30]
  have "map_option fst (validate_marks (Some 1) 32 example_state) = Some 1"
    "map_option fst (validate_marks (Some 1) 30 example_state) = Some 0"
    by (simp_all add: q1_def q2_def q3_def)
  with example_list ok show ?thesis by blast
qed

text \<open>
  C2 as the specification states it, for every question list, fails when the sum
  leaves the range of an int: the three marks 2147483647, 2147483647 and 2 add up to
  4294967296, the loop's 32-bit sum is 0, and a declared total of 0 is reported as a
  match.
\<close>

theorem validate_marks_overflow:
  "list_at q_next (heap big_state) (Some 1) [big1, big2, big3]
   \<and> (\<Sum>q\<leftarrow>[big1, big2, big3]. sint (q_marks q)) = 4294967296
   \<and> sum_loop (heap big_state) (Some 1) 0 = Some 0
   \<and> map_option fst (validate_marks (Some 1) 0 big_state) = Some 1"
proof -
  have loop: "sum_loop (heap big_state) (Some 1) 0 = Some 0"
    using sum_loop_list [OF big_list, of 0] by (simp add: big1_def big2_def big3_def)
  have "map_option fst (validate_marks (Some 1) 0 big_state) = Some 1"
    using validate_marks_flag [OF loop, of 0] by simp
  moreover have "(\<Sum>q\<leftarrow>[big1, big2, big3]. sint (q_marks q)) = 4294967296"
    by (simp add: big1_def big2_def big3_def)
  ultimately show ?thesis using big_list loop by blast
qed

text \<open>
  C9. The validator only reads the list: whenever it returns, the heap is the one it was
  given, so every field of every Question is unchanged; and on a well-formed list it does
  return, with the same list in place.
\<close>

theorem validate_marks_frame:
  "(validate_marks head declared_total s = Some (r, s') \<longrightarrow> heap s' = heap s)
   \<and> (list_at q_next (heap s) head qs \<longrightarrow>
        (\<exists>r s'. validate_marks head declared_total s = Some (r, s')
           \<and> heap s' = heap s \<and> list_at q_next (heap s') head qs))"
proof -
  have frame: "heap t = heap s" if "validate_marks head declared_total s = Some (r, t)" for r t
    using that by (auto simp: validate_marks_def printf_def split: option.splits if_splits)
  have "\<exists>r s'. validate_marks head declared_total s = Some (r, s')
       \<and> heap s' = heap s \<and> list_at q_next (heap s') head qs"
    if l: "list_at q_next (heap s) head qs"
  proof -
    from validate_marks_flag [OF sum_loop_list [OF l, of 0], of declared_total]
    obtain r t where rt: "validate_marks head declared_total s = Some (r, t)" by blast
    from frame [OF rt] l rt show ?thesis by auto
  qed
  with frame show ?thesis by blast
qed

theorem validate_marks_frame_witness:
  "list_at q_next (heap example_state) (Some 1) [q1, q2, q3]
   \<and> map_option (heap \<circ> snd) (validate_marks (Some 1) 32 example_state)
       = Some (heap example_state)"
proof -
  from validate_marks_frame [of "Some 1" 32 example_state _ _ "[q1, q2, q3]"] example_list
  obtain r s' where "validate_marks (Some 1) 32 example_state = Some (r, s')"
    "heap s' = heap example_state" by blast
  with example_list show ?thesis by simp
qed

text \<open>
  C10. On the empty list (a NULL head) the loop body never runs: the sum is 0, the
  validator returns, and its flag is 1 exactly when the declared total is 0.
\<close>

theorem validate_marks_empty:
  "sum_loop (heap s) None 0 = Some 0
   \<and> map_option fst (validate_marks None declared_total s) =
       Some (if declared_total = 0 then 1 else 0)"
proof -
  have loop: "sum_loop (heap s) None 0 = Some 0"
    by (subst sum_loop.simps) simp
  have "map_option fst (validate_marks None declared_total s) =
      Some (if 0 = declared_total then 1 else 0)"
    using validate_marks_flag [OF loop, of declared_total] by simp
  then show ?thesis using loop by (cases "declared_total = 0") auto
qed

theorem validate_marks_empty_witness:
  "map_option fst (validate_marks None 0 example_state) = Some 1
   \<and> map_option fst (validate_marks None 32 example_state) = Some 0"
  using validate_marks_empty [of example_state 0] validate_marks_empty [of example_state 32]
  by simp

section \<open>The export\<close>

text \<open>
  C5, as amended. For a document whose question list has N nodes, when the output file
  can be opened, the export writes exactly one root node, exactly N question nodes in
  list order, the k-th one numbered with the counter k, and exactly N edges from the root
  to them; each question node's label contains its marks and is the same whatever the
  question's status flag and difficulty are. For up to 2^31 questions the identifiers are
  the decimal position indices q0, q1, ...
\<close>

theorem export_ast_to_dot_graph:
  assumes "list_at qnext (heap w) (questions root) qs"
    and "write_error w filepath = None"
  shows "\<exists>f. map_option (\<lambda>w'. files w' filepath) (export_ast_to_dot (Some root) filepath w)
            = Some (Some f)
     \<and> filter is_root_stmt f = [root_stmt root]
     \<and> filter is_question_stmt f
         = map (\<lambda>k. question_stmt (of_nat k) (qs ! k)) [0..<length qs]
     \<and> filter is_edge_stmt f = map (\<lambda>k. edge_stmt (of_nat k)) [0..<length qs]
     \<and> (\<forall>k<length qs.
           sublist (''Q_MARKS: '' @ fmt_d (marks (qs ! k))) (question_stmt (of_nat k) (qs ! k))
           \<and> (\<forall>flag tier.
                question_stmt (of_nat k) ((qs ! k)\<lparr>status_flag := flag, difficulty := tier\<rparr>)
                  = question_stmt (of_nat k) (qs ! k)))
     \<and> (length qs \<le> 2 ^ 31 \<longrightarrow>
          (\<forall>k<length qs.
             prefix (''  q'' @ dec_digits k @ '' [label='') (question_stmt (of_nat k) (qs ! k))
             \<and> edge_stmt (of_nat k) = ''  root -> q'' @ dec_digits k @ '';'' @ [newline]))"
proof -
  let ?f = "[graph_stmt, node_defaults_stmt, root_stmt root] @ question_stmts 0 qs
              @ [end_stmt]"
  have written: "map_option (\<lambda>w'. files w' filepath) (export_ast_to_dot (Some root) filepath w)
      = Some (Some ?f)"
    by (simp add: export_ast_to_dot_file [OF assms] printf_def)
  have roots: "filter is_root_stmt ?f = [root_stmt root]"
    by (simp add: filter_question_stmts)
  have nodes: "filter is_question_stmt ?f
      = map (\<lambda>k. question_stmt (of_nat k) (qs ! k)) [0..<length qs]"
    by (simp add: filter_question_stmts)
  have edges: "filter is_edge_stmt ?f = map (\<lambda>k. edge_stmt (of_nat k)) [0..<length qs]"
    by (simp add: filter_question_stmts)
  have marks_shown: "sublist (''Q_MARKS: '' @ fmt_d (marks n)) (question_stmt i n)" for i n
    unfolding question_stmt_def sublist_def
    by (rule exI [of _ "''  q'' @ fmt_d i @ '' [label='' @ [dquote] @ ''Q_TEXT: ''
          @ ''TODO: Substring'' @ ''...'' @ [backslash] @ ''n''"],
        rule exI [of _ "[dquote] @ ''];'' @ [newline]"]) simp
  have unannotated: "question_stmt i (n\<lparr>status_flag := flag, difficulty := tier\<rparr>)
      = question_stmt i n" for i n flag tier
    by (simp add: question_stmt_def)
  have ids: "prefix (''  q'' @ dec_digits k @ '' [label='') (question_stmt (of_nat k) n)
      \<and> edge_stmt (of_nat k) = ''  root -> q'' @ dec_digits k @ '';'' @ [newline]"
    if "k < 2 ^ 31" for k n
    using that by (simp add: question_stmt_def edge_stmt_def fmt_d_of_nat)
  have "\<forall>k<length qs.
      prefix (''  q'' @ dec_digits k @ '' [label='') (question_stmt (of_nat k) (qs ! k))
      \<and> edge_stmt (of_nat k) = ''  root -> q'' @ dec_digits k @ '';'' @ [newline]"
    if "length qs \<le> 2 ^ 31"
    using that ids by (meson less_le_trans)
  with written roots nodes edges marks_shown unannotated show ?thesis by blast
qed

theorem export_ast_to_dot_graph_witness:
  "list_at qnext (heap paper_state) (questions paper) [node1, node2]
   \<and> write_error paper_state ''job/ast.dot'' = None
   \<and> (\<exists>f. map_option (\<lambda>w'. files w' ''job/ast.dot'')
              (export_ast_to_dot (Some paper) ''job/ast.dot'' paper_state) = Some (Some f)
          \<and> filter is_root_stmt f = [root_stmt paper]
          \<and> filter is_question_stmt f = [question_stmt 0 node1, question_stmt 1 node2]
          \<and> filter is_edge_stmt f = [edge_stmt 0, edge_stmt 1])"
proof -
  have w: "write_error paper_state ''job/ast.dot'' = None"
    by (simp add: paper_state_def)
  from export_ast_to_dot_graph [OF paper_list w]
  obtain f where "map_option (\<lambda>w'. files w' ''job/ast.dot'')
        (export_ast_to_dot (Some paper) ''job/ast.dot'' paper_state) = Some (Some f)"
    "filter is_root_stmt f = [root_stmt paper]"
    "filter is_question_stmt f = [question_stmt 0 node1, question_stmt 1 node2]"
    "filter is_edge_stmt f = [edge_stmt 0, edge_stmt 1]"
    by auto
  then show ?thesis using paper_list w by blast
qed

text \<open>
  C5 as the specification states it asks for the finalized status and difficulty
  in each label. A question marked DUPLICATE and Hard is exported with a label that shows
  neither.
\<close>

theorem export_ast_to_dot_label:
  "map_option (\<lambda>w'. files w' ''job/ast.dot'')
      (export_ast_to_dot (Some marked_paper) ''job/ast.dot'' marked_state)
    = Some (Some [graph_stmt, node_defaults_stmt, root_stmt marked_paper,
         ''  q0 [label='' @ [dquote] @ ''Q_TEXT: TODO: Substring...'' @ [backslash]
            @ ''nQ_MARKS: 5'' @ [dquote] @ ''];'' @ [newline],
         ''  root -> q0;'' @ [newline], end_stmt])
   \<and> difficulty marked = ''Hard''
   \<and> status_of (status_flag marked) = Some DUPLICATE
   \<and> \<not> sublist ''Hard'' (''  q0 [label='' @ [dquote] @ ''Q_TEXT: TODO: Substring...''
          @ [backslash] @ ''nQ_MARKS: 5'' @ [dquote] @ ''];'' @ [newline])
   \<and> \<not> sublist ''DUPLICATE'' (''  q0 [label='' @ [dquote] @ ''Q_TEXT: TODO: Substring...''
          @ [backslash] @ ''nQ_MARKS: 5'' @ [dquote] @ ''];'' @ [newline])
   \<and> \<not> sublist ''1'' (''  q0 [label='' @ [dquote] @ ''Q_TEXT: TODO: Substring...''
          @ [backslash] @ ''nQ_MARKS: 5'' @ [dquote] @ ''];'' @ [newline])"
proof -
  have w: "write_error marked_state ''job/ast.dot'' = None"
    by (simp add: marked_state_def)
  have "fmt_d 0 = ''0''" "fmt_d 5 = ''5''"
    by (simp_all add: fmt_d_def dec_digits.simps digit_char_def)
  then have "map_option (\<lambda>w'. files w' ''job/ast.dot'')
      (export_ast_to_dot (Some marked_paper) ''job/ast.dot'' marked_state)
    = Some (Some [graph_stmt, node_defaults_stmt, root_stmt marked_paper,
         ''  q0 [label='' @ [dquote] @ ''Q_TEXT: TODO: Substring...'' @ [backslash]
            @ ''nQ_MARKS: 5'' @ [dquote] @ ''];'' @ [newline],
         ''  root -> q0;'' @ [newline], end_stmt])"
    by (simp add: export_ast_to_dot_file [OF marked_list w] printf_def question_stmt_def
        edge_stmt_def marked_def)
  moreover have "difficulty marked = ''Hard''" "status_of (status_flag marked) = Some DUPLICATE"
    by (simp_all add: marked_def status_of_def)
  moreover have "\<not> sublist ''Hard'' (''  q0 [label='' @ [dquote] @ ''Q_TEXT: TODO: Substring...''
          @ [backslash] @ ''nQ_MARKS: 5'' @ [dquote] @ ''];'' @ [newline])"
    "\<not> sublist ''DUPLICATE'' (''  q0 [label='' @ [dquote] @ ''Q_TEXT: TODO: Substring...''
          @ [backslash] @ ''nQ_MARKS: 5'' @ [dquote] @ ''];'' @ [newline])"
    "\<not> sublist ''1'' (''  q0 [label='' @ [dquote] @ ''Q_TEXT: TODO: Substring...''
          @ [backslash] @ ''nQ_MARKS: 5'' @ [dquote] @ ''];'' @ [newline])"
    by (simp_all add: strstr_sublist [symmetric])
  ultimately show ?thesis by blast
qed

section \<open>Creating a question\<close>

text \<open>
  C6, as amended. A freshly created Question holds its text and marks, the placeholder
  "N/A" in difficulty, syllabus topic and Bloom's level, an estimated time of 0, no
  successor, and the status flag 0, which is the status OK; no other node of the heap
  changes.
\<close>

theorem create_question_node_initial:
  assumes "create_question_node node txt mks h = (r, h')"
  shows "r = Some node
    \<and> (\<exists>n. h' node = Some n \<and> qtext n = txt \<and> marks n = mks
          \<and> difficulty n = ''N/A'' \<and> syllabus_topic n = ''N/A'' \<and> blooms_level n = ''N/A''
          \<and> estimated_time n = 0
          \<and> status_flag n = 0 \<and> status_of (status_flag n) = Some OK
          \<and> qnext n = None)
    \<and> (\<forall>a. a \<noteq> node \<longrightarrow> h' a = h a)"
  using assms by (auto simp: create_question_node_def status_of_def)

theorem create_question_node_initial_witness:
  "create_question_node 3 ''Define a compiler.'' 10 (heap paper_state)
     = (Some 3, (heap paper_state)(3 \<mapsto> \<lparr>qtext = ''Define a compiler.'', marks = 10,
          difficulty = ''N/A'', estimated_time = 0, syllabus_topic = ''N/A'', status_flag = 0,
          blooms_level = ''N/A'', qnext = None\<rparr>))
   \<and> map_option status_flag
        (snd (create_question_node 3 ''Define a compiler.'' 10 (heap paper_state)) 3) = Some 0"
proof -
  have c: "create_question_node 3 ''Define a compiler.'' 10 (heap paper_state)
     = (Some 3, (heap paper_state)(3 \<mapsto> \<lparr>qtext = ''Define a compiler.'', marks = 10,
          difficulty = ''N/A'', estimated_time = 0, syllabus_topic = ''N/A'', status_flag = 0,
          blooms_level = ''N/A'', qnext = None\<rparr>))"
    by (simp add: create_question_node_def)
  from create_question_node_initial [OF c] c show ?thesis by auto
qed

text \<open>
  C6 as the specification states it has the status unset at creation. The status
  flag has no value for that: a fresh Question has the status OK.
\<close>

theorem create_question_node_status:
  "map_option (status_of \<circ> status_flag)
     (snd (create_question_node 1 ''Define a compiler.'' 10 Map.empty) 1) = Some (Some OK)"
  by (simp add: create_question_node_def status_of_def)


section \<open>The driver\<close>

text \<open>
  C7. The specification asks for a non-zero exit status whenever the input cannot be
  obtained. \<open>main\<close> builds the path of the input file with an unchecked \<open>sprintf\<close>
  into \<open>char input_path[1024]\<close>: for a job directory path of 1015 characters or more
  the path and its NUL do not fit, the write runs past the array, and the run has no
  defined exit status at all, whether or not the input file exists.
\<close>

theorem main_path_overflow:
  assumes "1015 \<le> length job_dir_path"
  shows "main ext [prog, job_dir_path] w = None"
  using assms by (simp add: main_def sprintf_buf_def Let_def)

theorem main_path_overflow_witness:
  "files job_state (replicate 1100 (CHR ''j'') @ ''/input.qp'') = None
   \<and> main toy_parser [''./q_compiler'', replicate 1100 (CHR ''j'')] job_state = None"
proof -
  have "length (replicate 1100 (CHR ''j'') @ ''/input.qp'') \<noteq> length ''job/input.qp''"
    by simp
  then have "replicate 1100 (CHR ''j'') @ ''/input.qp'' \<noteq> ''job/input.qp''"
    by metis
  then have "files job_state (replicate 1100 (CHR ''j'') @ ''/input.qp'') = None"
    by (simp add: job_state_def)
  moreover have "main toy_parser [''./q_compiler'', replicate 1100 (CHR ''j'')] job_state = None"
    using main_path_overflow [of "replicate 1100 (CHR ''j'')" toy_parser "''./q_compiler''"
        job_state]
    by simp
  ultimately show ?thesis by blast
qed

section \<open>Duplicates\<close>

text \<open>
  C8, as amended. The code has no duplicate detection. When the parser hands over a
  question list in which every status flag is 0, as \<open>create_question_node\<close> sets it
  and \<open>append_question\<close> keeps it, the driver runs to completion and leaves the list
  as it is: for every duplicate threshold, a later Question whose token-overlap
  similarity to an earlier one meets the threshold has the status OK after the run, and
  so has the earlier one; no Question is marked DUPLICATE.
\<close>

theorem no_duplicate_marking:
  assumes "length argv = 2" and "length (argv ! 1) \<le> 1014"
    and "files w (argv ! 1 @ ''/input.qp'') = Some yyin"
    and "run_parser ext (argv ! 1) yyin
           (printf (''Compiler worker started for job: '' @ argv ! 1 @ [newline]) w)
         = (0, Some doc, w2)"
    and "list_at qnext (heap w2) (questions doc) qs"
    and "\<forall>q \<in> set qs. status_flag q = 0"
  shows "(\<exists>w'. main ext argv w = Some (0, w') \<and> heap w' = heap w2
            \<and> list_at qnext (heap w') (questions doc) qs)
     \<and> (\<forall>threshold i j. i < j \<and> j < length qs
            \<and> meets_threshold threshold (token_overlap (qtext (qs ! i)) (qtext (qs ! j)))
          \<longrightarrow> status_of (status_flag (qs ! j)) = Some OK
              \<and> status_of (status_flag (qs ! i)) = Some OK)
     \<and> (\<forall>q \<in> set qs. status_of (status_flag q) \<noteq> Some DUPLICATE)
     \<and> (create_question_node node txt mks h = (r, h1) \<longrightarrow>
          map_option status_flag (h1 node) = Some 0 \<and> (\<forall>a. a \<noteq> node \<longrightarrow> h1 a = h a))
     \<and> (append_question list_head new_question h = Some (l, h2) \<longrightarrow>
          (\<forall>a. map_option status_flag (h2 a) = map_option status_flag (h a)))"
proof -
  from main_completes [OF assms(1-5)]
  obtain w4 where w4: "heap w4 = heap w2"
    and m: "main ext argv w =
      Some (0, printf (''Compiler worker finished for job: '' @ argv ! 1 @ [newline])
                 (printf (''Phase 2 (Web Output) Complete. ast.dot generated.'' @ [newline])
                    w4))"
    by blast
  let ?w' = "printf (''Compiler worker finished for job: '' @ argv ! 1 @ [newline])
               (printf (''Phase 2 (Web Output) Complete. ast.dot generated.'' @ [newline]) w4)"
  have "heap ?w' = heap w2" using w4 by (simp add: printf_def)
  with m assms(5) have driver: "\<exists>w'. main ext argv w = Some (0, w') \<and> heap w' = heap w2
      \<and> list_at qnext (heap w') (questions doc) qs"
    by auto
  have ok: "status_of (status_flag q) = Some OK" if "q \<in> set qs" for q
    using that assms(6) by (simp add: status_of_def)
  then have pairs: "\<forall>threshold i j. i < j \<and> j < length qs
        \<and> meets_threshold threshold (token_overlap (qtext (qs ! i)) (qtext (qs ! j)))
      \<longrightarrow> status_of (status_flag (qs ! j)) = Some OK
          \<and> status_of (status_flag (qs ! i)) = Some OK"
    by (simp add: nth_mem)
  from ok have none: "\<forall>q \<in> set qs. status_of (status_flag q) \<noteq> Some DUPLICATE"
    by simp
  have create: "map_option status_flag (h1 node) = Some 0 \<and> (\<forall>a. a \<noteq> node \<longrightarrow> h1 a = h a)"
    if "create_question_node node txt mks h = (r, h1)"
    using that by (auto simp: create_question_node_def)
  from driver pairs none create append_question_status show ?thesis by blast
qed

theorem no_duplicate_marking_witness:
  "length [''./q_compiler'', ''job''] = 2 \<and> length ([''./q_compiler'', ''job''] ! 1) \<le> 1014
   \<and> files job_state ([''./q_compiler'', ''job''] ! 1 @ ''/input.qp'')
       = Some [''SUBJECT Compiler Design'']
   \<and> list_at qnext [1 \<mapsto> twin (Some 2), 2 \<mapsto> twin None] (questions (twin_paper (Some 1)))
       [twin (Some 2), twin None]
   \<and> meets_threshold (1, 1) (token_overlap (qtext (twin (Some 2))) (qtext (twin None)))
   \<and> status_of (status_flag (twin None)) = Some OK
   \<and> map_option fst (main twin_parser [''./q_compiler'', ''job''] job_state) = Some 0"
proof -
  let ?argv = "[''./q_compiler'', ''job'']"
  let ?w2 = "(printf (''Phases 1 (Lex) & 2 (Parse) running...'' @ [newline])
               (printf (''Compiler worker started for job: '' @ ?argv ! 1 @ [newline]) job_state))
             \<lparr>heap := [1 \<mapsto> twin (Some 2), 2 \<mapsto> twin None]\<rparr>"
  have a1: "length ?argv = 2" and a2: "length (?argv ! 1) \<le> 1014" by simp_all
  have a3: "files job_state (?argv ! 1 @ ''/input.qp'') = Some [''SUBJECT Compiler Design'']"
    by (simp add: job_state_def)
  have a4: "run_parser twin_parser (?argv ! 1) [''SUBJECT Compiler Design'']
      (printf (''Compiler worker started for job: '' @ ?argv ! 1 @ [newline]) job_state)
    = (0, Some (twin_paper (Some 1)), ?w2)"
    by (rule twin_run)
  have a5: "list_at qnext (heap ?w2) (questions (twin_paper (Some 1))) [twin (Some 2), twin None]"
    using twin_list by simp
  have a6: "\<forall>q \<in> set [twin (Some 2), twin None]. status_flag q = 0"
    by (simp add: twin_def)
  have sim: "meets_threshold (1, 1) (token_overlap (qtext (twin (Some 2))) (qtext (twin None)))"
    by (simp add: twin_def twin_overlap meets_threshold_def)
  note inst = no_duplicate_marking [OF a1 a2 a3 a4 a5 a6]
  from inst [THEN conjunct1] obtain w' where "main twin_parser ?argv job_state = Some (0, w')"
    by blast
  then have run: "map_option fst (main twin_parser ?argv job_state) = Some 0"
    by simp
  have pairs: "status_of (status_flag ([twin (Some 2), twin None] ! j)) = Some OK"
    if "i < j" "j < length [twin (Some 2), twin None]"
      "meets_threshold threshold (token_overlap (qtext ([twin (Some 2), twin None] ! i))
         (qtext ([twin (Some 2), twin None] ! j)))"
    for threshold i j
    using that inst [THEN conjunct2, THEN conjunct1, rule_format, of i j threshold] by blast
  have "status_of (status_flag ([twin (Some 2), twin None] ! 1)) = Some OK"
    by (rule pairs [of 0 1 "(1, 1)"]) (use sim in simp_all)
  then have "status_of (status_flag (twin None)) = Some OK" by simp
  with a1 a2 a3 twin_list sim run show ?thesis by blast
qed

text \<open>
  C8 as the specification states it marks a later Question whose similarity to an
  earlier one reaches the threshold. A run of the whole driver on a paper of two
  Questions with the same text, whose similarity 3/3 meets even the threshold 1, ends
  with status 0 and both Questions OK.
\<close>

theorem twin_questions_not_marked:
  "map_option
     (\<lambda>(status, w'). (status, map_option qtext (heap w' 1), map_option qtext (heap w' 2),
        map_option (status_of \<circ> status_flag) (heap w' 1),
        map_option (status_of \<circ> status_flag) (heap w' 2)))
     (main twin_parser [''./q_compiler'', ''job''] job_state)
    = Some (0, Some ''Define a compiler.'', Some ''Define a compiler.'', Some (Some OK),
        Some (Some OK))
   \<and> token_overlap ''Define a compiler.'' ''Define a compiler.'' = (3, 3)
   \<and> meets_threshold (1, 1) (3, 3)"
proof -
  let ?argv = "[''./q_compiler'', ''job'']"
  let ?w2 = "(printf (''Phases 1 (Lex) & 2 (Parse) running...'' @ [newline])
               (printf (''Compiler worker started for job: '' @ ?argv ! 1 @ [newline]) job_state))
             \<lparr>heap := [1 \<mapsto> twin (Some 2), 2 \<mapsto> twin None]\<rparr>"
  have a1: "length ?argv = 2" and a2: "length (?argv ! 1) \<le> 1014" by simp_all
  have a3: "files job_state (?argv ! 1 @ ''/input.qp'') = Some [''SUBJECT Compiler Design'']"
    by (simp add: job_state_def)
  have a4: "run_parser twin_parser (?argv ! 1) [''SUBJECT Compiler Design'']
      (printf (''Compiler worker started for job: '' @ ?argv ! 1 @ [newline]) job_state)
    = (0, Some (twin_paper (Some 1)), ?w2)"
    by (rule twin_run)
  have a5: "list_at qnext (heap ?w2) (questions (twin_paper (Some 1))) [twin (Some 2), twin None]"
    using twin_list by simp
  from main_completes [OF a1 a2 a3 a4 a5]
  obtain w4 where h: "heap w4 = [1 \<mapsto> twin (Some 2), 2 \<mapsto> twin None]"
    and m: "main twin_parser ?argv job_state =
      Some (0, printf (''Compiler worker finished for job: '' @ ?argv ! 1 @ [newline])
                 (printf (''Phase 2 (Web Output) Complete. ast.dot generated.'' @ [newline])
                    w4))"
    by auto
  have "map_option
     (\<lambda>(status, w'). (status, map_option qtext (heap w' 1), map_option qtext (heap w' 2),
        map_option (status_of \<circ> status_flag) (heap w' 1),
        map_option (status_of \<circ> status_flag) (heap w' 2)))
     (main twin_parser ?argv job_state)
    = Some (0, Some ''Define a compiler.'', Some ''Define a compiler.'', Some (Some OK),
        Some (Some OK))"
    unfolding m by (simp add: printf_def h twin_def status_of_def)
  moreover have "meets_threshold (1, 1) (3, 3)" by (simp add: meets_threshold_def)
  ultimately show ?thesis using twin_overlap by blast
qed

end
